theory Spec2Isabelle
  imports Complex_Main
begin

section \<open>The discrete diffusion scheduler\<close>

text \<open>
  A shallow embedding of \<^verbatim>\<open>DiscreteScheduler\<close>
  (\<^verbatim>\<open>src/diffusers/schedulers/scheduling_discrete.py\<close>): the constructor that builds
  the coefficient tables, \<^verbatim>\<open>step\<close> and \<^verbatim>\<open>add_noise\<close>.

  Numbers. The tables are numpy \<^verbatim>\<open>float32\<close> arrays. In \<open>init\<close>, \<open>step\<close> and
  \<open>add_noise\<close> they are modelled by lists of \<^typ>\<open>real\<close>: every arithmetic operation is
  exact, and rounding, overflow, infinities and NaN have no counterpart. Where numpy would
  produce a non-finite value (a division by zero, the square root of a negative number)
  the model has HOL's total value instead (\<open>x / 0 = 0\<close>, \<open>sqrt (- x) = - sqrt x\<close>).
  The order of the cumulative products depends on rounding, so the beta, alpha and
  cumulative-product tables of the constructor are modelled a second time, in
  \<open>init_f32\<close>, with every \<^verbatim>\<open>float32\<close> operation rounded to nearest.

  Arrays. A one-dimensional array is a \<^typ>\<open>real list\<close>; \<^verbatim>\<open>step\<close> is modelled on
  one-dimensional samples. \<^verbatim>\<open>add_noise\<close> is modelled on two-dimensional samples
  (batch times flattened trailing dimensions), which carry their shape.

  Exceptions are values of \<open>py_error\<close>, the left summand of the result type. The
  specification's \<^verbatim>\<open>UnsupportedConfiguration\<close> is Python's
  \<^verbatim>\<open>NotImplementedError\<close>, \<^verbatim>\<open>IndexOutOfRange\<close> is \<^verbatim>\<open>IndexError\<close> and
  \<^verbatim>\<open>InvalidArgument\<close> is \<^verbatim>\<open>ValueError\<close>.
\<close>

datatype py_error = NotImplementedError string | TypeError | IndexError | ValueError

subsection \<open>The numpy operations the scheduler calls\<close>

text \<open>
  \<^verbatim>\<open>np.linspace(start, stop, num)\<close> with the default \<^verbatim>\<open>endpoint=True\<close>: a negative
  \<^verbatim>\<open>num\<close> raises \<^verbatim>\<open>ValueError\<close>; otherwise \<^verbatim>\<open>arange(0, num)\<close> is scaled by
  \<^verbatim>\<open>step = delta / div\<close> with \<^verbatim>\<open>div = num - 1\<close> (by \<^verbatim>\<open>delta\<close> alone when
  \<^verbatim>\<open>div = 0\<close>), shifted by \<^verbatim>\<open>start\<close>, and the last entry is overwritten by
  \<^verbatim>\<open>stop\<close> when \<^verbatim>\<open>num > 1\<close>.
\<close>

definition linspace :: "real \<Rightarrow> real \<Rightarrow> int \<Rightarrow> py_error + real list" where
  "linspace start stop num =
     (if num < 0 then Inl ValueError
      else
        let n = nat num;
            dv = n - 1;
            delta = stop - start;
            y0 = map real [0..<n];
            y1 = (if dv > 0
                  then (if delta / real dv = 0
                        then map (\<lambda>v. v / real dv * delta) y0
                        else map (\<lambda>v. v * (delta / real dv)) y0)
                  else map (\<lambda>v. v * delta) y0);
            y2 = map (\<lambda>v. v + start) y1;
            y3 = (if n > 1 then y2[n - 1 := stop] else y2)
        in Inr y3)"

text \<open>\<^verbatim>\<open>np.cumprod(a, axis=0)\<close> on a one-dimensional array: the running product.\<close>

fun cumprod_from :: "real \<Rightarrow> real list \<Rightarrow> real list" where
  "cumprod_from acc [] = []"
| "cumprod_from acc (x # xs) = (acc * x) # cumprod_from (acc * x) xs"

definition cumprod :: "real list \<Rightarrow> real list" where
  "cumprod xs = cumprod_from 1 xs"

text \<open>\<^verbatim>\<open>np.zeros(n)\<close>: a negative length raises \<^verbatim>\<open>ValueError\<close>.\<close>

definition zeros :: "int \<Rightarrow> py_error + real list" where
  "zeros n = (if n < 0 then Inl ValueError else Inr (replicate (nat n) 0))"

text \<open>
  An elementwise binary operation on two one-dimensional arrays, with numpy's broadcasting:
  equal lengths combine pointwise, a length-one operand is stretched over the other, and
  anything else raises \<^verbatim>\<open>ValueError\<close>.
\<close>

definition bop :: "(real \<Rightarrow> real \<Rightarrow> real) \<Rightarrow> real list \<Rightarrow> real list \<Rightarrow> py_error + real list" where
  "bop f xs ys =
     (if length xs = length ys then Inr (map2 f xs ys)
      else if length xs = 1 then Inr (map (f (hd xs)) ys)
      else if length ys = 1 then Inr (map (\<lambda>x. f x (hd ys)) xs)
      else Inl ValueError)"

text \<open>
  The in-place \<^verbatim>\<open>xs += ys\<close>: the right operand must broadcast to the shape of the
  left one, which keeps its shape.
\<close>

definition iadd :: "real list \<Rightarrow> real list \<Rightarrow> py_error + real list" where
  "iadd xs ys =
     (if length ys = length xs then Inr (map2 (+) xs ys)
      else if length ys = 1 then Inr (map (\<lambda>x. x + hd ys) xs)
      else Inl ValueError)"

text \<open>
  \<^verbatim>\<open>a[i]\<close> for an integer \<^verbatim>\<open>i\<close>: a negative index counts from the end, and an index
  outside \<open>[- len a, len a)\<close> raises \<^verbatim>\<open>IndexError\<close>.
\<close>

definition getitem :: "real list \<Rightarrow> int \<Rightarrow> py_error + real" where
  "getitem a i =
     (if 0 \<le> i \<and> i < int (length a) then Inr (a ! nat i)
      else if - int (length a) \<le> i \<and> i < 0 then Inr (a ! nat (int (length a) + i))
      else Inl IndexError)"

text \<open>
  \<^verbatim>\<open>a[ts]\<close> for a sequence \<^verbatim>\<open>ts\<close> of integers: the entries at those indices, each
  index read as by \<^verbatim>\<open>a[i]\<close>; one index out of range raises \<^verbatim>\<open>IndexError\<close>.
\<close>

fun take_idx :: "real list \<Rightarrow> int list \<Rightarrow> py_error + real list" where
  "take_idx a [] = Inr []"
| "take_idx a (t # ts) =
     (case getitem a t of
        Inl e \<Rightarrow> Inl e
      | Inr v \<Rightarrow> (case take_idx a ts of Inl e \<Rightarrow> Inl e | Inr vs \<Rightarrow> Inr (v # vs)))"

text \<open>
  A two-dimensional array with its shape: \<open>nrows\<close> rows of \<open>ncols\<close> entries each.
\<close>

record ndarray2 =
  nrows :: nat
  ncols :: nat
  cells :: "real list list"

text \<open>
  Broadcasting of two dimensions: equal sizes stay, a size of one stretches to the other,
  anything else raises \<^verbatim>\<open>ValueError\<close>. \<open>bidx\<close> is the index read in a dimension of
  size \<open>m\<close> for the position \<open>i\<close> of the result.
\<close>

definition bdim :: "nat \<Rightarrow> nat \<Rightarrow> py_error + nat" where
  "bdim m n =
     (if m = n then Inr m else if m = 1 then Inr n else if n = 1 then Inr m
      else Inl ValueError)"

definition bidx :: "nat \<Rightarrow> nat \<Rightarrow> nat" where
  "bidx m i = (if m = 1 then 0 else i)"

definition at2 :: "ndarray2 \<Rightarrow> nat \<Rightarrow> nat \<Rightarrow> real" where
  "at2 a i j = cells a ! bidx (nrows a) i ! bidx (ncols a) j"

definition bop2 ::
  "(real \<Rightarrow> real \<Rightarrow> real) \<Rightarrow> ndarray2 \<Rightarrow> ndarray2 \<Rightarrow> py_error + ndarray2" where
  "bop2 f a b =
     (case bdim (nrows a) (nrows b) of
        Inl e \<Rightarrow> Inl e
      | Inr r \<Rightarrow>
          (case bdim (ncols a) (ncols b) of
             Inl e \<Rightarrow> Inl e
           | Inr c \<Rightarrow>
               Inr \<lparr> nrows = r, ncols = c,
                     cells = map (\<lambda>i. map (\<lambda>j. f (at2 a i j) (at2 b i j)) [0..<c]) [0..<r] \<rparr>))"

definition map2d :: "(real \<Rightarrow> real) \<Rightarrow> ndarray2 \<Rightarrow> ndarray2" where
  "map2d f a = a\<lparr> cells := map (map f) (cells a) \<rparr>"

text \<open>
  Python's \<^verbatim>\<open>x ** 0.5\<close> on a float. For a negative \<^verbatim>\<open>x\<close> Python returns a complex
  number with real part zero; \<^verbatim>\<open>np.linspace(..., dtype=np.float32)\<close> then discards the
  imaginary parts (with a warning), so only the real part reaches the table.
\<close>

definition pow_half :: "real \<Rightarrow> real" where
  "pow_half x = (if x < 0 then 0 else sqrt x)"

subsection \<open>The helpers of the scheduler mixin\<close>

definition sqrt_fmt :: "real \<Rightarrow> real" where
  \<comment> \<open>Modelled from the spec: \<^verbatim>\<open>SchedulerMixin.sqrt\<close> (\<^verbatim>\<open>scheduling_utils.py\<close> is not
      among the sources); the specification asks for the elementwise square root.\<close>
  "sqrt_fmt x = sqrt x"

definition clip :: "real \<Rightarrow> real \<Rightarrow> real \<Rightarrow> real" where
  \<comment> \<open>Modelled from the spec: \<^verbatim>\<open>SchedulerMixin.clip\<close> (\<^verbatim>\<open>scheduling_utils.py\<close> is not
      among the sources); the specification asks to clamp every element to the closed
      interval between the two bounds.\<close>
  "clip x lo hi = min (max x lo) hi"

definition match_shape :: "real list \<Rightarrow> ndarray2 \<Rightarrow> ndarray2" where
  \<comment> \<open>Modelled from the spec: \<^verbatim>\<open>SchedulerMixin.match_shape\<close>
      (\<^verbatim>\<open>scheduling_utils.py\<close> is not among the sources); the specification asks to
      broadcast the per-element coefficient over the trailing dimensions of the samples,
      so the \<open>T\<close> values become a column of shape \<open>(T, 1)\<close>, of the rank of the
      samples.\<close>
  "match_shape values broadcast_array =
     \<lparr> nrows = length values, ncols = 1, cells = map (\<lambda>v. [v]) values \<rparr>"

subsection \<open>Construction\<close>

record scheduler =
  num_timesteps :: int
  clip_sample :: bool
  variance_type :: "string option"
  betas :: "real list"
  alphas :: "real list"
  alphas_cumprod :: "real list"
  variance :: "real list"

text \<open>
  Lines 51 to 59: the beta schedule. \<open>None\<close> is Python's \<^verbatim>\<open>None\<close>, which the
  \<^verbatim>\<open>"trained"\<close> branch stores in \<^verbatim>\<open>self.betas\<close>.
\<close>

definition init_betas :: "int \<Rightarrow> real \<Rightarrow> real \<Rightarrow> string \<Rightarrow> py_error + real list option" where
  "init_betas n beta_min beta_max beta_schedule =
     (if beta_schedule = ''linear'' then
        (case linspace beta_min beta_max n of
           Inl e \<Rightarrow> Inl e
         | Inr bs \<Rightarrow> Inr (Some bs))
      else if beta_schedule = ''scaled_linear'' then
        (case linspace (pow_half beta_min) (pow_half beta_max) n of
           Inl e \<Rightarrow> Inl e
         | Inr bs \<Rightarrow> Inr (Some (map (\<lambda>b. b ^ 2) bs)))
      else if beta_schedule = ''trained'' then Inr None
      else Inl (NotImplementedError beta_schedule))"

text \<open>Lines 64 to 72: the variance table.\<close>

definition init_variance ::
  "int \<Rightarrow> string option \<Rightarrow> real list \<Rightarrow> real list \<Rightarrow> py_error + real list" where
  "init_variance n vt bs acp =
     (if vt = Some ''fixed_small'' then
        (let alphas_cumprod_prev = 1 # drop 1 acp in
         case bop (/) (map (\<lambda>a. 1 - a) alphas_cumprod_prev) (map (\<lambda>a. 1 - a) acp) of
           Inl e \<Rightarrow> Inl e
         | Inr q \<Rightarrow>
             (case bop (*) q bs of
                Inl e \<Rightarrow> Inl e
              | Inr v \<Rightarrow> Inr (map sqrt v)))
      else if vt = Some ''fixed_large'' then Inr (map sqrt bs)
      else if vt = None then zeros n
      else Inl (NotImplementedError (the vt)))"

text \<open>
  \<^verbatim>\<open>__init__\<close>. Line 61, \<^verbatim>\<open>1.0 - self.betas\<close>, raises \<^verbatim>\<open>TypeError\<close> when
  \<^verbatim>\<open>self.betas\<close> is \<^verbatim>\<open>None\<close>. The registration of the configuration and
  \<^verbatim>\<open>set_format\<close> with the default \<^verbatim>\<open>tensor_format="np"\<close> leave the tables as they
  are.
\<close>

definition init ::
  "int \<Rightarrow> real \<Rightarrow> real \<Rightarrow> string \<Rightarrow> bool \<Rightarrow> string option \<Rightarrow> py_error + scheduler" where
  "init n beta_min beta_max beta_schedule clip_clean_sample vt =
     (case init_betas n beta_min beta_max beta_schedule of
        Inl e \<Rightarrow> Inl e
      | Inr None \<Rightarrow> Inl TypeError
      | Inr (Some bs) \<Rightarrow>
          (let als = map (\<lambda>b. 1 - b) bs;
               acp = cumprod als
           in case init_variance n vt bs acp of
                Inl e \<Rightarrow> Inl e
              | Inr v \<Rightarrow>
                  Inr \<lparr> num_timesteps = n, clip_sample = clip_clean_sample,
                        variance_type = vt, betas = bs, alphas = als,
                        alphas_cumprod = acp, variance = v \<rparr>))"

subsection \<open>Construction in float32 arithmetic\<close>

text \<open>
  IEEE 754 binary32 with rounding to nearest, ties to even, read on the reals.
  \<open>expo x\<close> is the exponent of the binade of \<open>x\<close>, and \<open>- 126\<close> for the subnormal
  numbers below it; \<open>ulp x\<close> is the distance between neighbouring \<^verbatim>\<open>float32\<close> values
  in that binade (24 significant bits); \<open>f32 x\<close> is the multiple of \<open>ulp x\<close> nearest
  to \<open>x\<close>, the even multiple at a tie. Overflow to infinity is not modelled: beyond the
  largest \<^verbatim>\<open>float32\<close> value \<open>f32\<close> keeps rounding to 24 bits. The alphas and the
  cumulative products of betas between zero and one stay between zero and one.
\<close>

definition round_even :: "real \<Rightarrow> int" where
  "round_even y =
     (let f = \<lfloor>y\<rfloor>; d = y - of_int f
      in if d < 1/2 then f else if 1/2 < d then f + 1 else if even f then f else f + 1)"

definition expo :: "real \<Rightarrow> int" where
  "expo x = max \<lfloor>log 2 \<bar>x\<bar>\<rfloor> (- 126)"

definition ulp :: "real \<Rightarrow> real" where
  "ulp x = 2 powr of_int (expo x - 23)"

definition f32 :: "real \<Rightarrow> real" where
  "f32 x = of_int (round_even (x / ulp x)) * ulp x"


text \<open>
  \<^verbatim>\<open>np.cumprod\<close> on a one-dimensional \<^verbatim>\<open>float32\<close> array: the first entry is
  copied, and every later entry is the previous result times the next element, rounded
  to \<^verbatim>\<open>float32\<close>.
\<close>

fun cumprod_f32_from :: "real \<Rightarrow> real list \<Rightarrow> real list" where
  "cumprod_f32_from acc [] = []"
| "cumprod_f32_from acc (x # xs) = f32 (acc * x) # cumprod_f32_from (f32 (acc * x)) xs"

fun cumprod_f32 :: "real list \<Rightarrow> real list" where
  "cumprod_f32 [] = []"
| "cumprod_f32 (x # xs) = x # cumprod_f32_from x xs"

text \<open>
  Lines 51 to 59 in \<^verbatim>\<open>float32\<close>. \<^verbatim>\<open>np.linspace(..., dtype=np.float32)\<close> computes in
  \<^verbatim>\<open>float64\<close>, which stays exact here, and casts the result to \<^verbatim>\<open>float32\<close>;
  \<^verbatim>\<open>** 2\<close> on the \<^verbatim>\<open>float32\<close> array squares every entry and rounds it.
\<close>

definition init_betas_f32 :: "int \<Rightarrow> real \<Rightarrow> real \<Rightarrow> string \<Rightarrow> py_error + real list option" where
  "init_betas_f32 n beta_min beta_max beta_schedule =
     (if beta_schedule = ''linear'' then
        (case linspace beta_min beta_max n of
           Inl e \<Rightarrow> Inl e
         | Inr bs \<Rightarrow> Inr (Some (map f32 bs)))
      else if beta_schedule = ''scaled_linear'' then
        (case linspace (pow_half beta_min) (pow_half beta_max) n of
           Inl e \<Rightarrow> Inl e
         | Inr bs \<Rightarrow> Inr (Some (map (\<lambda>b. f32 (b * b)) (map f32 bs))))
      else if beta_schedule = ''trained'' then Inr None
      else Inl (NotImplementedError beta_schedule))"

text \<open>
  Lines 51 to 62 of \<^verbatim>\<open>__init__\<close> in \<^verbatim>\<open>float32\<close>: the three tables as they stand
  when the variance branch is reached. That branch reads them and leaves them as they
  are, so these are the tables of every scheduler that is constructed.
  \<^verbatim>\<open>1.0 - self.betas\<close> is a \<^verbatim>\<open>float32\<close> subtraction, entry by entry.
\<close>

record tables_f32 =
  betas32 :: "real list"
  alphas32 :: "real list"
  alphas_cumprod32 :: "real list"

definition init_f32 :: "int \<Rightarrow> real \<Rightarrow> real \<Rightarrow> string \<Rightarrow> py_error + tables_f32" where
  "init_f32 n beta_min beta_max beta_schedule =
     (case init_betas_f32 n beta_min beta_max beta_schedule of
        Inl e \<Rightarrow> Inl e
      | Inr None \<Rightarrow> Inl TypeError
      | Inr (Some bs) \<Rightarrow>
          (let als = map (\<lambda>b. f32 (1 - b)) bs;
               acp = cumprod_f32 als
           in Inr \<lparr> betas32 = bs, alphas32 = als, alphas_cumprod32 = acp \<rparr>))"

subsection \<open>The reverse step\<close>

definition step ::
  "scheduler \<Rightarrow> real list \<Rightarrow> real list \<Rightarrow> int \<Rightarrow> real list option \<Rightarrow> py_error + real list" where
  "step self noise_prediction noisy_sample t noise =
     (case getitem (alphas self) t of Inl e \<Rightarrow> Inl e | Inr alpha \<Rightarrow>
      case getitem (betas self) t of Inl e \<Rightarrow> Inl e | Inr beta \<Rightarrow>
      case getitem (alphas_cumprod self) t of Inl e \<Rightarrow> Inl e | Inr alpha_cumprod \<Rightarrow>
      case (if t > 0 then getitem (alphas_cumprod self) (t - 1) else Inr 1) of
        Inl e \<Rightarrow> Inl e
      | Inr alpha_cumprod_next \<Rightarrow>
      case bop (-) noisy_sample
             (map (\<lambda>x. sqrt_fmt (1 - alpha_cumprod) * x) noise_prediction) of
        Inl e \<Rightarrow> Inl e
      | Inr d \<Rightarrow>
      let pred_clean0 = map (\<lambda>x. x / sqrt_fmt alpha_cumprod) d;
          pred_clean = (if clip_sample self
                        then map (\<lambda>x. clip x (- 1) 1) pred_clean0 else pred_clean0);
          clean_sample_coeff = (sqrt_fmt alpha_cumprod_next * beta) / (1 - alpha_cumprod);
          noisy_sample_coeff =
            sqrt_fmt alpha * (1 - alpha_cumprod_next) / (1 - alpha_cumprod)
      in
      case bop (+) (map (\<lambda>x. clean_sample_coeff * x) pred_clean)
             (map (\<lambda>x. noisy_sample_coeff * x) noisy_sample) of
        Inl e \<Rightarrow> Inl e
      | Inr next_sample \<Rightarrow>
          (if t > 0 \<and> noise \<noteq> None then
             (case getitem (variance self) t of
                Inl e \<Rightarrow> Inl e
              | Inr v \<Rightarrow> iadd next_sample (map (\<lambda>x. v * x) (the noise)))
           else Inr next_sample))"

subsection \<open>Forward noising\<close>

definition add_noise ::
  "scheduler \<Rightarrow> ndarray2 \<Rightarrow> ndarray2 \<Rightarrow> int list \<Rightarrow> py_error + ndarray2" where
  "add_noise self clean_samples noise timesteps =
     (case take_idx (alphas_cumprod self) timesteps of
        Inl e \<Rightarrow> Inl e
      | Inr acs \<Rightarrow>
          (let ac = match_shape acs clean_samples in
           case bop2 (*) (map2d sqrt_fmt ac) clean_samples of
             Inl e \<Rightarrow> Inl e
           | Inr signal \<Rightarrow>
               (case bop2 (*) (map2d sqrt_fmt (map2d (\<lambda>x. 1 - x) ac)) noise of
                  Inl e \<Rightarrow> Inl e
                | Inr scaled_noise \<Rightarrow> bop2 (+) signal scaled_noise)))"

subsection \<open>The formulas of the specification\<close>

text \<open>
  The reverse step as section 4.2 of the specification words it, for one element of the
  sample: \<open>p\<close> is the element of the noise prediction, \<open>x\<close> that of the noisy sample
  and \<open>z\<close> that of the noise, when noise is supplied.
\<close>

definition spec_alpha_cumprod_next :: "scheduler \<Rightarrow> int \<Rightarrow> real" where
  "spec_alpha_cumprod_next s t = (if t > 0 then alphas_cumprod s ! nat (t - 1) else 1)"

definition spec_pred_clean :: "scheduler \<Rightarrow> int \<Rightarrow> real \<Rightarrow> real \<Rightarrow> real" where
  "spec_pred_clean s t p x =
     (let v = (x - sqrt (1 - alphas_cumprod s ! nat t) * p) / sqrt (alphas_cumprod s ! nat t)
      in if clip_sample s then max (- 1) (min 1 v) else v)"

definition spec_clean_coeff :: "scheduler \<Rightarrow> int \<Rightarrow> real" where
  "spec_clean_coeff s t =
     sqrt (spec_alpha_cumprod_next s t) * betas s ! nat t / (1 - alphas_cumprod s ! nat t)"

definition spec_noisy_coeff :: "scheduler \<Rightarrow> int \<Rightarrow> real" where
  "spec_noisy_coeff s t =
     sqrt (alphas s ! nat t) * (1 - spec_alpha_cumprod_next s t)
       / (1 - alphas_cumprod s ! nat t)"

definition spec_step_elem :: "scheduler \<Rightarrow> int \<Rightarrow> real \<Rightarrow> real \<Rightarrow> real option \<Rightarrow> real" where
  "spec_step_elem s t p x z =
     spec_clean_coeff s t * spec_pred_clean s t p x + spec_noisy_coeff s t * x
       + (if t > 0 then (case z of None \<Rightarrow> 0 | Some w \<Rightarrow> variance s ! nat t * w) else 0)"

text \<open>
  The forward noising of section 4.3, for one element: \<open>t\<close> is the timestep of the batch
  element, \<open>x\<close> the element of the clean sample and \<open>z\<close> that of the noise.
\<close>

definition spec_add_noise_elem :: "scheduler \<Rightarrow> int \<Rightarrow> real \<Rightarrow> real \<Rightarrow> real" where
  "spec_add_noise_elem s t x z =
     sqrt (alphas_cumprod s ! nat t) * x + sqrt (1 - alphas_cumprod s ! nat t) * z"

text \<open>Two sizes of a dimension that broadcast against each other.\<close>

definition compatible :: "nat \<Rightarrow> nat \<Rightarrow> bool" where
  "compatible m n = (m = n \<or> m = 1 \<or> n = 1)"

text \<open>
  The variance table of \<^verbatim>\<open>fixedSmall\<close> as section 4.1 of the specification words it:
  the cumulative product of the previous index, and one at index zero.
\<close>

definition spec_alphas_cumprod_prev :: "scheduler \<Rightarrow> nat \<Rightarrow> real" where
  "spec_alphas_cumprod_prev s i = (if i = 0 then 1 else alphas_cumprod s ! (i - 1))"

definition spec_fixed_small :: "scheduler \<Rightarrow> nat \<Rightarrow> real" where
  "spec_fixed_small s i =
     sqrt ((1 - spec_alphas_cumprod_prev s i) / (1 - alphas_cumprod s ! i) * betas s ! i)"

subsection \<open>Example schedulers\<close>

text \<open>
  The tables of the two-step linear schedule from \<open>1/4\<close> to \<open>1/2\<close>, with the
  variance type and the variance table left open, and those of the one-step schedule.
\<close>

abbreviation ex_tables :: "string option \<Rightarrow> real list \<Rightarrow> scheduler" where
  "ex_tables vt v \<equiv>
     \<lparr> num_timesteps = 2, clip_sample = False, variance_type = vt,
       betas = [1/4, 1/2], alphas = [3/4, 1/2], alphas_cumprod = [3/4, 3/8],
       variance = v \<rparr>"




text \<open>
  Clean samples and noise of shape \<open>(1, 2)\<close>, and a noise array of shape \<open>(1, 3)\<close>.
\<close>

abbreviation ex_clean :: ndarray2 where
  "ex_clean \<equiv> \<lparr> nrows = 1, ncols = 2, cells = [[1, 0]] \<rparr>"

abbreviation ex_noise :: ndarray2 where
  "ex_noise \<equiv> \<lparr> nrows = 1, ncols = 2, cells = [[0, 1]] \<rparr>"

abbreviation ex_wide :: ndarray2 where
  "ex_wide \<equiv> \<lparr> nrows = 1, ncols = 3, cells = [[0, 0, 0]] \<rparr>"

section \<open>Auxiliary facts\<close>

lemma linspace_Inr:
  assumes "linspace a b n = Inr ys"
  shows "0 \<le> n" and "length ys = nat n"
  using assms by (auto simp: linspace_def Let_def split: if_splits)



lemma length_cumprod_from: "length (cumprod_from acc xs) = length xs"
  by (induction xs arbitrary: acc) auto

lemma cumprod_from_nth_0: "xs \<noteq> [] \<Longrightarrow> cumprod_from acc xs ! 0 = acc * xs ! 0"
  by (cases xs) auto

lemma cumprod_from_nth_Suc:
  "Suc i < length xs \<Longrightarrow> cumprod_from acc xs ! Suc i = cumprod_from acc xs ! i * xs ! Suc i"
proof (induction xs arbitrary: acc i)
  case Nil
  then show ?case by simp
next
  case (Cons x xs)
  show ?case
  proof (cases i)
    case 0
    with Cons.prems show ?thesis by (cases xs) auto
  next
    case (Suc k)
    with Cons show ?thesis by simp
  qed
qed

lemma init_Inr:
  assumes "init n bmin bmax sch c vt = Inr s"
  shows "init_betas n bmin bmax sch = Inr (Some (betas s))"
    and "alphas s = map (\<lambda>b. 1 - b) (betas s)"
    and "alphas_cumprod s = cumprod (alphas s)"
    and "init_variance n vt (betas s) (alphas_cumprod s) = Inr (variance s)"
    and "num_timesteps s = n" and "clip_sample s = c" and "variance_type s = vt"
  using assms
  by (auto simp: init_def Let_def split: sum.splits option.splits)

lemma init_betas_length:
  assumes "init_betas n bmin bmax sch = Inr (Some bs)"
  shows "0 \<le> n" and "length bs = nat n"
  using assms
  by (auto simp: init_betas_def split: if_splits sum.splits dest: linspace_Inr)

lemma init_lengths:
  assumes "init n bmin bmax sch c vt = Inr s"
  shows "0 \<le> n" and "length (betas s) = nat n" and "length (alphas s) = nat n"
    and "length (alphas_cumprod s) = nat n"
  using init_Inr[OF assms] init_betas_length[of n bmin bmax sch "betas s"]
  by (simp_all add: cumprod_def length_cumprod_from)

lemma bop_same_length: "length xs = length ys \<Longrightarrow> bop f xs ys = Inr (map2 f xs ys)"
  by (simp add: bop_def)

lemma init_variance_ok:
  assumes "0 \<le> n" and "length bs = nat n" and "length acp = nat n"
    and "vt = None \<or> vt = Some ''fixed_small'' \<or> vt = Some ''fixed_large''"
  shows "\<exists>v. init_variance n vt bs acp = Inr v"
proof -
  have "\<exists>q. bop (/) (map (\<lambda>a. 1 - a) (1 # drop 1 acp)) (map (\<lambda>a. 1 - a) acp) = Inr q
          \<and> length q = nat n"
    using assms(3) by (cases acp) (auto simp: bop_def)
  then obtain q where q: "bop (/) (map (\<lambda>a. 1 - a) (1 # drop 1 acp)) (map (\<lambda>a. 1 - a) acp) = Inr q"
    and lq: "length q = nat n" by blast
  have "bop (*) q bs = Inr (map2 (*) q bs)"
    using lq assms(2) by (simp add: bop_same_length)
  with q assms(1,4) show ?thesis
    by (auto simp: init_variance_def zeros_def Let_def)
qed

text \<open>
  Construction returns a scheduler for every length, every pair of bounds and each of the
  three variance types, under the linear schedule.
\<close>

lemma init_linear_ok:
  assumes "0 \<le> n"
    and "vt = None \<or> vt = Some ''fixed_small'' \<or> vt = Some ''fixed_large''"
  shows "\<exists>s. init n bmin bmax ''linear'' c vt = Inr s"
proof -
  obtain bs where bs: "linspace bmin bmax n = Inr bs"
    using assms(1) by (auto simp: linspace_def Let_def)
  then have lb: "length bs = nat n" by (rule linspace_Inr)
  have "length (cumprod (map (\<lambda>b. 1 - b) bs)) = nat n"
    by (simp add: cumprod_def length_cumprod_from lb)
  from init_variance_ok[OF assms(1) lb this assms(2)]
  obtain v where "init_variance n vt bs (cumprod (map (\<lambda>b. 1 - b) bs)) = Inr v" by blast
  with bs show ?thesis
    by (simp add: init_def init_betas_def Let_def)
qed


lemma cumprod_Suc:
  "Suc i < length xs \<Longrightarrow> cumprod xs ! Suc i = cumprod xs ! i * xs ! Suc i"
  unfolding cumprod_def by (rule cumprod_from_nth_Suc)

lemma getitem_out_of_range:
  "t < - int (length a) \<or> int (length a) \<le> t \<Longrightarrow> getitem a t = Inl IndexError"
  by (auto simp: getitem_def)

lemma getitem_in_range:
  "0 \<le> t \<Longrightarrow> t < int (length a) \<Longrightarrow> getitem a t = Inr (a ! nat t)"
  by (simp add: getitem_def)

lemma clip_eq: "clip x (- 1) 1 = max (- 1) (min 1 x)"
  by (simp add: clip_def min_def max_def)

lemma iadd_same_length: "length ys = length xs \<Longrightarrow> iadd xs ys = Inr (map2 (+) xs ys)"
  by (simp add: iadd_def)

lemma bop_length:
  "bop f xs ys = Inr zs \<Longrightarrow> length xs = length ys \<Longrightarrow> length zs = length ys"
  by (auto simp: bop_def)

lemma init_variance_length:
  assumes "init_variance n vt bs acp = Inr v" and "0 \<le> n"
    and "length bs = nat n" and "length acp = nat n"
  shows "length v = nat n"
proof (cases "vt = Some ''fixed_small''")
  case True
  show ?thesis
  proof (cases acp)
    case Nil
    then show ?thesis
      using assms True by (auto simp: init_variance_def bop_def Let_def)
  next
    case (Cons a as)
    then have l: "length (1 # drop 1 acp) = length acp" by simp
    then show ?thesis
      using assms True
      by (auto simp: init_variance_def Let_def bop_same_length simp del: drop_Suc_Cons
            split: sum.splits)
  qed
next
  case False
  then show ?thesis
    using assms by (auto simp: init_variance_def zeros_def split: if_splits)
qed

lemma bdim_compatible:
  "bdim m n = (if compatible m n then Inr (if m = 1 then n else m) else Inl ValueError)"
  by (auto simp: bdim_def compatible_def)

lemma bidx_less: "i < m \<Longrightarrow> bidx m i = i"
  by (auto simp: bidx_def)

lemma bop2_shape:
  "bop2 f a b =
     (if compatible (nrows a) (nrows b) \<and> compatible (ncols a) (ncols b)
      then Inr \<lparr> nrows = (if nrows a = 1 then nrows b else nrows a),
                 ncols = (if ncols a = 1 then ncols b else ncols a),
                 cells = map (\<lambda>i. map (\<lambda>j. f (at2 a i j) (at2 b i j))
                                  [0..<(if ncols a = 1 then ncols b else ncols a)])
                           [0..<(if nrows a = 1 then nrows b else nrows a)] \<rparr>
      else Inl ValueError)"
  by (simp add: bop2_def bdim_compatible)

lemma bop2_column:
  assumes "nrows a = nrows b" and "ncols a = 1"
  shows "bop2 f a b =
           Inr \<lparr> nrows = nrows b, ncols = ncols b,
                 cells = map (\<lambda>i. map (\<lambda>j. f (cells a ! i ! 0) (cells b ! i ! j))
                                  [0..<ncols b]) [0..<nrows b] \<rparr>"
  using assms
  by (auto simp: bop2_shape compatible_def at2_def bidx_less bidx_def)

lemma bop2_same_shape:
  assumes "nrows a = nrows b" and "ncols a = ncols b"
  shows "bop2 f a b =
           Inr \<lparr> nrows = nrows b, ncols = ncols b,
                 cells = map (\<lambda>i. map (\<lambda>j. f (cells a ! i ! j) (cells b ! i ! j))
                                  [0..<ncols b]) [0..<nrows b] \<rparr>"
  using assms
  by (auto simp: bop2_shape compatible_def at2_def bidx_less)

lemma take_idx_in_range:
  "\<forall>t\<in>set ts. 0 \<le> t \<and> t < int (length a) \<Longrightarrow> take_idx a ts = Inr (map (\<lambda>t. a ! nat t) ts)"
  by (induction ts) (auto simp: getitem_def)

lemma take_idx_wrapped:
  "\<forall>t\<in>set ts. - int (length a) \<le> t \<and> t < int (length a)
     \<Longrightarrow> \<exists>vs. take_idx a ts = Inr vs \<and> length vs = length ts"
  by (induction ts) (auto simp: getitem_def)

lemma take_idx_errors: "take_idx a ts = Inl e \<Longrightarrow> e = IndexError"
  by (induction ts) (auto simp: getitem_def split: sum.splits if_splits)

lemma take_idx_out_of_range:
  "\<exists>t\<in>set ts. t < - int (length a) \<or> int (length a) \<le> t \<Longrightarrow> take_idx a ts = Inl IndexError"
proof (induction ts)
  case Nil
  then show ?case by simp
next
  case (Cons t ts)
  show ?case
  proof (cases "getitem a t")
    case (Inl e)
    then show ?thesis by (auto simp: getitem_def split: if_splits)
  next
    case (Inr v)
    then have "\<not> (t < - int (length a) \<or> int (length a) \<le> t)"
      by (auto simp: getitem_def split: if_splits)
    with Cons.prems have "\<exists>t\<in>set ts. t < - int (length a) \<or> int (length a) \<le> t" by auto
    from Cons.IH[OF this] Inr show ?thesis by simp
  qed
qed

subsection \<open>Float32 rounding\<close>
































lemma init_f32_of_init:
  assumes "init n bmin bmax sch c vt = Inr s"
  shows "\<exists>t. init_f32 n bmin bmax sch = Inr t"
  using init_Inr(1)[OF assms]
  by (auto simp: init_f32_def init_betas_f32_def init_betas_def Let_def
           split: if_splits sum.splits)





subsection \<open>The example schedulers are what construction returns\<close>

lemmas init_eval = init_def init_betas_def init_variance_def linspace_def cumprod_def
  bop_def zeros_def Let_def upt_conv_Cons eval_nat_numeral

lemma init_ex_none: "init 2 (1/4) (1/2) ''linear'' False None = Inr (ex_tables None [0, 0])"
  by (simp add: init_eval)

lemma init_ex_small:
  "init 2 (1/4) (1/2) ''linear'' False (Some ''fixed_small'')
     = Inr (ex_tables (Some ''fixed_small'') [0, sqrt (1/2)])"
  by (simp add: init_eval)

lemma init_ex_large:
  "init 2 (1/4) (1/2) ''linear'' False (Some ''fixed_large'')
     = Inr (ex_tables (Some ''fixed_large'') [sqrt (1/4), sqrt (1/2)])"
  by (simp add: init_eval)





section \<open>Properties\<close>

text \<open>
  C4. At \<open>t = 0\<close> the stochastic term is never added: \<^verbatim>\<open>step\<close> with a noise array
  returns what \<^verbatim>\<open>step\<close> without one returns, for every scheduler, prediction, sample
  and noise.
\<close>

theorem step_zero_ignores_noise:
  "step self noise_prediction noisy_sample 0 (Some noise)
     = step self noise_prediction noisy_sample 0 None"
  by (simp add: step_def Let_def split: sum.splits)

text \<open>
  C1, at the two-step linear schedule from \<open>1/4\<close> to \<open>1/2\<close> with
  \<^verbatim>\<open>fixed_small\<close>. The specification takes the cumulative product of the previous
  index, which gives \<open>variance[1] = sqrt (1/5)\<close>; the constructor builds
  \<^verbatim>\<open>alphas_cumprod_prev\<close> from \<^verbatim>\<open>alphas_cumprod[1:]\<close>, the cumulative product of
  the same index, and stores \<open>sqrt (1/2)\<close>.
\<close>

theorem fixed_small_reads_current_cumprod:
  "init 2 (1/4) (1/2) ''linear'' False (Some ''fixed_small'')
     = Inr (ex_tables (Some ''fixed_small'') [0, sqrt (1/2)])
   \<and> spec_fixed_small (ex_tables (Some ''fixed_small'') [0, sqrt (1/2)]) 1 = sqrt (1/5)
   \<and> variance (ex_tables (Some ''fixed_small'') [0, sqrt (1/2)]) ! 1 = sqrt (1/2)
   \<and> sqrt (1/2) \<noteq> sqrt (1/5)"
  using init_ex_small by (simp add: spec_fixed_small_def spec_alphas_cumprod_prev_def)

text \<open>
  C2. Under the \<^verbatim>\<open>"trained"\<close> schedule the constructor does not return: whatever the
  other arguments are, line 61 subtracts \<^verbatim>\<open>None\<close> from \<open>1.0\<close> and raises
  \<^verbatim>\<open>TypeError\<close>, not \<^verbatim>\<open>NotImplementedError\<close>.
\<close>

theorem init_trained_raises_TypeError:
  "init n beta_min beta_max ''trained'' clip_clean_sample vt = Inl TypeError"
  by (simp add: init_def init_betas_def)









text \<open>
  C3, amended. For every constructed scheduler and every timestep \<open>t\<close> with
  \<open>t \<ge> num_timesteps\<close> or \<open>t < - num_timesteps\<close>, \<^verbatim>\<open>step\<close> raises
  \<^verbatim>\<open>IndexError\<close>, whatever the other arguments are.
\<close>

theorem step_out_of_range:
  assumes "init n bmin bmax sch c vt = Inr s"
    and "t < - num_timesteps s \<or> num_timesteps s \<le> t"
  shows "step s noise_prediction noisy_sample t noise = Inl IndexError"
proof -
  have "length (alphas s) = nat n" "0 \<le> n" "num_timesteps s = n"
    using init_lengths[OF assms(1)] init_Inr(5)[OF assms(1)] by simp_all
  with assms(2) have "getitem (alphas s) t = Inl IndexError"
    by (intro getitem_out_of_range) auto
  then show ?thesis by (simp add: step_def)
qed

theorem step_out_of_range_witness:
  "init 2 (1/4) (1/2) ''linear'' False None = Inr (ex_tables None [0, 0])
   \<and> num_timesteps (ex_tables None [0, 0]) \<le> 2
   \<and> step (ex_tables None [0, 0]) [0] [0] 2 None = Inl IndexError
   \<and> step (ex_tables None [0, 0]) [0] [0] (- 3) None = Inl IndexError"
  using step_out_of_range[OF init_ex_none, of 2 "[0]" "[0]" None]
    step_out_of_range[OF init_ex_none, of "- 3" "[0]" "[0]" None] init_ex_none by simp

text \<open>
  The claim C3 as stated fails for a negative timestep that is at least
  \<open>- num_timesteps\<close>: the tables are read from the end, as Python indexing does, and a
  sample is returned. On the two-step scheduler, \<open>t = - 1\<close> reads the entries of
  \<open>t = 1\<close> and returns a sample.
\<close>

theorem step_negative_timestep_counterexample:
  "init 2 (1/4) (1/2) ''linear'' False None = Inr (ex_tables None [0, 0])
   \<and> \<not> (0 \<le> (- 1 :: int) \<and> (- 1 :: int) < num_timesteps (ex_tables None [0, 0]))
   \<and> step (ex_tables None [0, 0]) [0] [0] (- 1) None = Inr [0]"
  using init_ex_none
  by (simp add: step_def getitem_def bop_def Let_def sqrt_fmt_def)

text \<open>
  C7. For every constructed scheduler, every timestep \<open>0 \<le> t < num_timesteps\<close> and
  every prediction and sample of the same shape (and noise, when supplied, of that shape),
  \<^verbatim>\<open>step\<close> returns, element by element, the value of the specification:
  \<open>cleanCoeff * predClean + noisyCoeff * noisySample\<close>, plus \<open>variance[t] * noise\<close> only
  when \<open>t > 0\<close> and noise is present, with \<open>predClean\<close> clamped to \<open>[-1, 1]\<close> when
  clipping is enabled and with the cumulative product of the next step equal to
  \<open>alphas_cumprod[t-1]\<close> for \<open>t > 0\<close> and to one for \<open>t = 0\<close>.
\<close>

theorem step_formula:
  assumes "init n bmin bmax sch c vt = Inr s"
    and "0 \<le> t" and "t < num_timesteps s"
    and "length noise_prediction = length noisy_sample"
    and "\<forall>z. noise = Some z \<longrightarrow> length z = length noisy_sample"
  shows "step s noise_prediction noisy_sample t noise
           = Inr (map (\<lambda>k. spec_step_elem s t (noise_prediction ! k) (noisy_sample ! k)
                            (map_option (\<lambda>z. z ! k) noise))
                    [0..<length noisy_sample])"
proof -
  note L = init_lengths[OF assms(1)]
  have nt: "num_timesteps s = n" using init_Inr(5)[OF assms(1)] .
  have lv: "length (variance s) = nat n"
    using init_variance_length[OF init_Inr(4)[OF assms(1)]] L by simp
  have tn: "t < int (nat n)" using assms(2,3) nt by simp
  have g1: "getitem (alphas s) t = Inr (alphas s ! nat t)"
    using assms(2) tn L by (simp add: getitem_in_range)
  have g2: "getitem (betas s) t = Inr (betas s ! nat t)"
    using assms(2) tn L by (simp add: getitem_in_range)
  have g3: "getitem (alphas_cumprod s) t = Inr (alphas_cumprod s ! nat t)"
    using assms(2) tn L by (simp add: getitem_in_range)
  have g4: "(if t > 0 then getitem (alphas_cumprod s) (t - 1) else Inr 1)
              = Inr (spec_alpha_cumprod_next s t)"
    using assms(2) tn L by (simp add: getitem_in_range spec_alpha_cumprod_next_def)
  have g5: "getitem (variance s) t = Inr (variance s ! nat t)"
    using assms(2) tn lv by (simp add: getitem_in_range)
  show ?thesis
  proof (cases noise)
    case None
    show ?thesis
      unfolding step_def g1 g2 g3 g4 using assms(4) None
      by (auto simp: Let_def bop_same_length sqrt_fmt_def clip_eq spec_step_elem_def
            spec_pred_clean_def spec_clean_coeff_def spec_noisy_coeff_def
            intro!: nth_equalityI)
  next
    case (Some z)
    then have lz: "length z = length noisy_sample" using assms(5) by simp
    show ?thesis
      unfolding step_def g1 g2 g3 g4 g5 using assms(4) Some lz
      by (auto simp: Let_def bop_same_length iadd_same_length sqrt_fmt_def clip_eq
            spec_step_elem_def spec_pred_clean_def spec_clean_coeff_def spec_noisy_coeff_def
            intro!: nth_equalityI)
  qed
qed

theorem step_formula_witness:
  "init 2 (1/4) (1/2) ''linear'' False (Some ''fixed_large'')
     = Inr (ex_tables (Some ''fixed_large'') [sqrt (1/4), sqrt (1/2)])
   \<and> (0::int) \<le> 1
   \<and> 1 < num_timesteps (ex_tables (Some ''fixed_large'') [sqrt (1/4), sqrt (1/2)])
   \<and> length [0::real] = length [0::real]
   \<and> length [1::real] = length [0::real]
   \<and> step (ex_tables (Some ''fixed_large'') [sqrt (1/4), sqrt (1/2)]) [0] [0] 1 (Some [1])
       = Inr [sqrt (1/2)]"
  using step_formula[OF init_ex_large, of 1 "[0]" "[0]" "Some [1]"] init_ex_large
  by (simp add: spec_step_elem_def spec_pred_clean_def spec_clean_coeff_def
        spec_noisy_coeff_def spec_alpha_cumprod_next_def)

text \<open>
  C8. For every constructed scheduler, clean samples and noise of one shape \<open>(B, D)\<close>
  and \<open>B\<close> timesteps in \<open>[0, num_timesteps)\<close>, \<^verbatim>\<open>add_noise\<close> returns an array of
  the shape of the clean samples whose entry \<open>(b, j)\<close> is
  \<open>sqrt ac * clean[b][j] + sqrt (1 - ac) * noise[b][j]\<close> with
  \<open>ac = alphas_cumprod[timesteps[b]]\<close>.
\<close>

theorem add_noise_formula:
  assumes "init n bmin bmax sch c vt = Inr s"
    and "nrows noise = nrows clean_samples" and "ncols noise = ncols clean_samples"
    and "length timesteps = nrows clean_samples"
    and "\<forall>t\<in>set timesteps. 0 \<le> t \<and> t < num_timesteps s"
  shows "add_noise s clean_samples noise timesteps =
           Inr \<lparr> nrows = nrows clean_samples, ncols = ncols clean_samples,
                 cells = map (\<lambda>b. map (\<lambda>j. spec_add_noise_elem s (timesteps ! b)
                                               (cells clean_samples ! b ! j) (cells noise ! b ! j))
                                  [0..<ncols clean_samples])
                           [0..<nrows clean_samples] \<rparr>"
proof -
  note L = init_lengths[OF assms(1)]
  have nt: "num_timesteps s = n" using init_Inr(5)[OF assms(1)] .
  have rng: "\<forall>t\<in>set timesteps. 0 \<le> t \<and> t < int (length (alphas_cumprod s))"
    using assms(5) nt L by auto
  define acs where "acs = map (\<lambda>t. alphas_cumprod s ! nat t) timesteps"
  have tk: "take_idx (alphas_cumprod s) timesteps = Inr acs"
    unfolding acs_def by (rule take_idx_in_range[OF rng])
  have la: "length acs = nrows clean_samples" by (simp add: acs_def assms(4))
  define A where "A = match_shape acs clean_samples"
  have A: "nrows A = nrows clean_samples" "ncols A = 1" "cells A = map (\<lambda>v. [v]) acs"
    by (simp_all add: A_def match_shape_def la)
  have sig: "bop2 (*) (map2d sqrt_fmt A) clean_samples =
      Inr \<lparr> nrows = nrows clean_samples, ncols = ncols clean_samples,
            cells = map (\<lambda>i. map (\<lambda>j. sqrt (acs ! i) * cells clean_samples ! i ! j)
                       [0..<ncols clean_samples]) [0..<nrows clean_samples] \<rparr>"
    by (subst bop2_column) (auto simp: map2d_def A la sqrt_fmt_def)
  have nse: "bop2 (*) (map2d sqrt_fmt (map2d (\<lambda>x. 1 - x) A)) noise =
      Inr \<lparr> nrows = nrows clean_samples, ncols = ncols clean_samples,
            cells = map (\<lambda>i. map (\<lambda>j. sqrt (1 - acs ! i) * cells noise ! i ! j)
                       [0..<ncols clean_samples]) [0..<nrows clean_samples] \<rparr>"
    by (subst bop2_column) (auto simp: map2d_def A la sqrt_fmt_def assms(2,3))
  have "add_noise s clean_samples noise timesteps =
      Inr \<lparr> nrows = nrows clean_samples, ncols = ncols clean_samples,
            cells = map (\<lambda>i. map (\<lambda>j. sqrt (acs ! i) * cells clean_samples ! i ! j
                                       + sqrt (1 - acs ! i) * cells noise ! i ! j)
                       [0..<ncols clean_samples]) [0..<nrows clean_samples] \<rparr>"
    unfolding add_noise_def tk Let_def
    by (simp add: sig[unfolded A_def] nse[unfolded A_def]) (subst bop2_same_shape; simp)
  moreover have "acs ! b = alphas_cumprod s ! nat (timesteps ! b)" if "b < nrows clean_samples" for b
    using that assms(4) by (simp add: acs_def)
  ultimately show ?thesis
    by (simp add: spec_add_noise_elem_def)
qed

theorem add_noise_formula_witness:
  "init 2 (1/4) (1/2) ''linear'' False None = Inr (ex_tables None [0, 0])
   \<and> nrows ex_noise = nrows ex_clean \<and> ncols ex_noise = ncols ex_clean
   \<and> length [1::int] = nrows ex_clean
   \<and> list_all (\<lambda>t. 0 \<le> t \<and> t < num_timesteps (ex_tables None [0, 0])) [1]
   \<and> add_noise (ex_tables None [0, 0]) ex_clean ex_noise [1]
       = Inr \<lparr> nrows = 1, ncols = 2, cells = [[sqrt (3/8), sqrt (5/8)]] \<rparr>"
  using add_noise_formula[OF init_ex_none, of ex_noise ex_clean "[1]"] init_ex_none
  by (simp add: spec_add_noise_elem_def upt_conv_Cons)

text \<open>
  C9, amended. For every constructed scheduler: when some timestep lies outside
  \<open>[- num_timesteps, num_timesteps)\<close>, \<^verbatim>\<open>add_noise\<close> raises \<^verbatim>\<open>IndexError\<close>; when
  every timestep lies inside it, \<^verbatim>\<open>add_noise\<close> raises \<^verbatim>\<open>ValueError\<close> if the number
  of timesteps, the batch size of the clean samples and the batch size of the noise are
  not pairwise equal or one, or the trailing sizes of clean samples and noise are neither
  equal nor one, and returns an array otherwise.
\<close>

theorem add_noise_failures:
  assumes "init n bmin bmax sch c vt = Inr s"
  shows "((\<exists>t\<in>set timesteps. t < - num_timesteps s \<or> num_timesteps s \<le> t) \<longrightarrow>
            add_noise s clean_samples noise timesteps = Inl IndexError)
       \<and> ((\<forall>t\<in>set timesteps. - num_timesteps s \<le> t \<and> t < num_timesteps s) \<longrightarrow>
            (if compatible (length timesteps) (nrows clean_samples)
                \<and> compatible (length timesteps) (nrows noise)
                \<and> compatible (nrows clean_samples) (nrows noise)
                \<and> compatible (ncols clean_samples) (ncols noise)
             then \<exists>r. add_noise s clean_samples noise timesteps = Inr r
             else add_noise s clean_samples noise timesteps = Inl ValueError))"
proof (intro conjI impI)
  note L = init_lengths[OF assms(1)]
  have nt: "num_timesteps s = int (length (alphas_cumprod s))"
    using init_Inr(5)[OF assms(1)] L by simp
  {
    assume "\<exists>t\<in>set timesteps. t < - num_timesteps s \<or> num_timesteps s \<le> t"
    then have "take_idx (alphas_cumprod s) timesteps = Inl IndexError"
      unfolding nt by (rule take_idx_out_of_range)
    then show "add_noise s clean_samples noise timesteps = Inl IndexError"
      by (simp add: add_noise_def)
  }
  {
    assume "\<forall>t\<in>set timesteps. - num_timesteps s \<le> t \<and> t < num_timesteps s"
    then obtain vs where vs: "take_idx (alphas_cumprod s) timesteps = Inr vs"
      and lv: "length vs = length timesteps"
      unfolding nt using take_idx_wrapped by blast
    show "if compatible (length timesteps) (nrows clean_samples)
                \<and> compatible (length timesteps) (nrows noise)
                \<and> compatible (nrows clean_samples) (nrows noise)
                \<and> compatible (ncols clean_samples) (ncols noise)
             then \<exists>r. add_noise s clean_samples noise timesteps = Inr r
             else add_noise s clean_samples noise timesteps = Inl ValueError"
      unfolding add_noise_def vs Let_def
      by (auto simp: bop2_shape match_shape_def map2d_def lv compatible_def)
  }
qed

theorem add_noise_failures_witness:
  "init 2 (1/4) (1/2) ''linear'' False None = Inr (ex_tables None [0, 0])
   \<and> add_noise (ex_tables None [0, 0]) ex_clean ex_noise [2] = Inl IndexError
   \<and> add_noise (ex_tables None [0, 0]) ex_clean ex_wide [0] = Inl ValueError"
  using add_noise_failures[OF init_ex_none, of "[2]" ex_clean ex_noise]
    add_noise_failures[OF init_ex_none, of "[0]" ex_clean ex_wide] init_ex_none
  by (simp add: compatible_def)

text \<open>
  The claim C9 as stated fails for a negative timestep that is at least
  \<open>- num_timesteps\<close>: on the two-step scheduler the timestep \<open>- 1\<close>, outside
  \<open>[0, num_timesteps)\<close>, is read as the last entry of the table and an array is returned.
\<close>

theorem add_noise_negative_timestep_counterexample:
  "init 2 (1/4) (1/2) ''linear'' False None = Inr (ex_tables None [0, 0])
   \<and> \<not> (0 \<le> (- 1 :: int) \<and> (- 1 :: int) < num_timesteps (ex_tables None [0, 0]))
   \<and> add_noise (ex_tables None [0, 0]) ex_clean ex_noise [- 1]
       = Inr \<lparr> nrows = 1, ncols = 2, cells = [[sqrt (3/8), sqrt (5/8)]] \<rparr>"
  using init_ex_none
  by (simp add: add_noise_def getitem_def match_shape_def map2d_def bop2_def bdim_def
        at2_def bidx_def sqrt_fmt_def upt_conv_Cons)

end
